theory Spec2Isabelle
  imports Complex_Main "HOL-Library.Multiset"
begin

section \<open>The deals list view (src/src/components/ListView.tsx)\<close>

text \<open>
  The React component \<open>ListView\<close> keeps its state in \<open>useState\<close> hooks and derives the
  visible rows from the \<open>deals\<close> prop on every render. The hooks become the fields of one
  state record, every handler becomes a function from state to state, and the values
  derived during render (\<open>filteredAndSortedDeals\<close>, \<open>totalPages\<close>, \<open>paginatedDeals\<close>) become
  functions of the state. Calls to the outside (\<open>toast\<close>, \<open>console.error\<close>, the
  callbacks \<open>onUpdateDeal\<close> and \<open>onDeleteDeals\<close>) are recorded in the state as logs; what
  the outside answers (the saved item of \<open>localStorage\<close>, the outcome of an update) is an
  argument of the handler.
\<close>

subsection \<open>JavaScript values and strings\<close>

text \<open>
  Finite JavaScript numbers are modelled by rationals (every finite double is one, and
  \<open><\<close> on finite doubles is \<open><\<close> on the rationals). The one non-finite number the
  code can produce is the time value of an invalid \<open>Date\<close>, modelled by \<open>None\<close> below.
\<close>

type_synonym number = rat

datatype jsval = JUndefined | JNum number | JStr string | JBool bool

text \<open>\<open>String.prototype.toLowerCase\<close>, on the ASCII letters.\<close>

definition lowerChar :: "char \<Rightarrow> char" where
  "lowerChar c =
     (case map_of (zip ''ABCDEFGHIJKLMNOPQRSTUVWXYZ'' ''abcdefghijklmnopqrstuvwxyz'') c of
        Some l \<Rightarrow> l
      | None \<Rightarrow> c)"

definition toLowerCase :: "string \<Rightarrow> string" where
  "toLowerCase s = map lowerChar s"

text \<open>\<open>String.prototype.includes\<close>: the argument occurs as a contiguous substring.\<close>

fun startsWith :: "string \<Rightarrow> string \<Rightarrow> bool" where
  "startsWith s [] = True"
| "startsWith [] (c # t) = False"
| "startsWith (d # s) (c # t) = (d = c \<and> startsWith s t)"

fun str_includes :: "string \<Rightarrow> string \<Rightarrow> bool" where
  "str_includes [] t = (t = [])"
| "str_includes (d # s) t = (startsWith (d # s) t \<or> str_includes s t)"

text \<open>The relational operator \<open><\<close> on two strings: lexicographic on the code units.\<close>

fun str_lt :: "string \<Rightarrow> string \<Rightarrow> bool" where
  "str_lt [] [] = False"
| "str_lt [] (c # t) = True"
| "str_lt (d # s) [] = False"
| "str_lt (d # s) (c # t) =
     ((of_char d :: nat) < of_char c \<or> (d = c \<and> str_lt s t))"

text \<open>\<open>String(n)\<close> for an integer \<open>n\<close>: its decimal digits, with a minus sign if negative.\<close>

definition digitChar :: "nat \<Rightarrow> char" where
  "digitChar d = ''0123456789'' ! d"

fun natToString :: "nat \<Rightarrow> string" where
  "natToString n =
     (if n < 10 then [digitChar n] else natToString (n div 10) @ [digitChar (n mod 10)])"

declare natToString.simps [simp del]

definition intToString :: "int \<Rightarrow> string" where
  "intToString i = (if i < 0 then CHR ''-'' # natToString (nat (- i)) else natToString (nat i))"

text \<open>
  \<open>Array.prototype.slice(start, end)\<close>: a negative index counts from the end, and both
  indices are clamped into the array.
\<close>

definition relIndex :: "int \<Rightarrow> int \<Rightarrow> nat" where
  "relIndex len i = (if i < 0 then nat (max (len + i) 0) else nat (min i len))"

definition slice :: "'a list \<Rightarrow> int \<Rightarrow> int \<Rightarrow> 'a list" where
  "slice xs start fin =
     (let len = int (length xs); k = relIndex len start; e = relIndex len fin
      in take (e - k) (drop k xs))"

text \<open>
  \<open>Array.prototype.sort(compareFn)\<close>. ECMAScript (2019 and later) requires the sort to be
  stable: for a comparator that orders the elements consistently the result is the one
  sorted permutation that keeps elements comparing equal in their input order. Inserting
  every element, from the last to the first, in front of the first element it does not
  compare greater than computes that permutation (\<open>mset_Array_sort\<close>,
  \<open>sorted_Array_sort\<close> and \<open>Array_sort_ties\<close> below). For a comparator that is not
  consistent the order is left to the engine; the model then is one such engine.
\<close>

fun insertBy :: "('a \<Rightarrow> 'a \<Rightarrow> int) \<Rightarrow> 'a \<Rightarrow> 'a list \<Rightarrow> 'a list" where
  "insertBy cmp x [] = [x]"
| "insertBy cmp x (y # ys) = (if cmp x y \<le> 0 then x # y # ys else y # insertBy cmp x ys)"

fun Array_sort :: "('a \<Rightarrow> 'a \<Rightarrow> int) \<Rightarrow> 'a list \<Rightarrow> 'a list" where
  "Array_sort cmp [] = []"
| "Array_sort cmp (x # xs) = insertBy cmp x (Array_sort cmp xs)"

subsection \<open>Records of the data model\<close>

text \<open>
  Modelled from the spec: the interface \<open>Deal\<close> of \<open>@/types/deal\<close> is not among the
  sources; these are the fields \<open>ListView\<close> reads. An optional field that is
  \<open>undefined\<close> or \<open>null\<close> is \<open>None\<close> (the code treats both alike). Probability is an
  integer percentage and priority a level, so both are integers; the field \<open>id\<close> is
  named \<open>deal_id\<close>.
\<close>

record Deal =
  deal_id :: string
  deal_name :: "string option"
  project_name :: "string option"
  lead_name :: "string option"
  customer_name :: "string option"
  region :: "string option"
  lead_owner :: "string option"
  stage :: string
  priority :: "int option"
  probability :: "int option"
  handoff_status :: "string option"
  total_contract_value :: "number option"
  total_revenue :: "number option"
  project_duration :: "number option"
  expected_closing_date :: "string option"
  start_date :: "string option"
  end_date :: "string option"
  created_at :: "string option"
  modified_at :: "string option"
  proposal_due_date :: "string option"

text \<open>
  Modelled from the spec: \<open>AdvancedFilterState\<close> of \<open>./DealsAdvancedFilter\<close> is not among
  the sources; its fields are those of the initial value in \<open>ListView\<close>.
\<close>

record AdvancedFilterState =
  stages :: "string list"
  regions :: "string list"
  leadOwners :: "string list"
  priorities :: "string list"
  probabilities :: "string list"
  handoffStatuses :: "string list"
  f_searchTerm :: string
  probabilityRange :: "number \<times> number"

datatype SortOrder = Asc | Desc

record Toast =
  title :: string
  description :: string
  variant :: "string option"

text \<open>The component state: one field per hook, the \<open>deals\<close> prop, and the logs of the
  calls to the outside.\<close>

record ListViewState =
  deals :: "Deal list"
  searchTerm :: string
  leadOwnerFilter :: string
  filters :: AdvancedFilterState
  sortBy :: string
  sortOrder :: SortOrder
  selectedDeals :: "string set"
  currentPage :: int
  columnWidths :: "string \<rightharpoonup> number"
  isResizing :: "string option"
  startX :: number
  startWidth :: number
  toasts :: "Toast list"
  console_errors :: "string list"
  onUpdateDeal_calls :: "(string \<times> string \<times> jsval) list"
  onDeleteDeals_calls :: "string set list"

definition itemsPerPage :: int where
  "itemsPerPage = 25"

subsection \<open>Reading a field by its name\<close>

text \<open>
  \<open>a[sortBy as keyof Deal]\<close> reads the property named by a string. The numeric, the date
  and the other properties are read by three accessors, one for each branch of the
  comparator; a name that is no property of the record reads as \<open>undefined\<close>.
\<close>

definition numericProp :: "Deal \<Rightarrow> string \<Rightarrow> number option" where
  "numericProp d f =
     (if f = ''priority'' then map_option of_int (priority d)
      else if f = ''probability'' then map_option of_int (probability d)
      else if f = ''project_duration'' then project_duration d
      else if f = ''total_contract_value'' then total_contract_value d
      else if f = ''total_revenue'' then total_revenue d
      else None)"

definition dateProp :: "Deal \<Rightarrow> string \<Rightarrow> string option" where
  "dateProp d f =
     (if f = ''expected_closing_date'' then expected_closing_date d
      else if f = ''start_date'' then start_date d
      else if f = ''end_date'' then end_date d
      else if f = ''created_at'' then created_at d
      else if f = ''modified_at'' then modified_at d
      else if f = ''proposal_due_date'' then proposal_due_date d
      else None)"

definition textProp :: "Deal \<Rightarrow> string \<Rightarrow> string option" where
  "textProp d f =
     (if f = ''id'' then Some (deal_id d)
      else if f = ''deal_name'' then deal_name d
      else if f = ''project_name'' then project_name d
      else if f = ''lead_name'' then lead_name d
      else if f = ''customer_name'' then customer_name d
      else if f = ''region'' then region d
      else if f = ''lead_owner'' then lead_owner d
      else if f = ''stage'' then Some (stage d)
      else if f = ''handoff_status'' then handoff_status d
      else None)"

text \<open>\<open>x || 0\<close> on an optional number and \<open>x || ''\<close> on an optional string: a missing
  value, and the falsy values \<open>0\<close> and \<open>''\<close> themselves, give the default.\<close>

definition orZero :: "number option \<Rightarrow> number" where
  "orZero v = (case v of None \<Rightarrow> 0 | Some n \<Rightarrow> if n = 0 then 0 else n)"

definition orEmpty :: "string option \<Rightarrow> string" where
  "orEmpty v = (case v of None \<Rightarrow> [] | Some s \<Rightarrow> if s = [] then [] else s)"

subsection \<open>The filter predicate\<close>

text \<open>\<open>[searchTerm, filters.searchTerm].filter(Boolean).join(' ').toLowerCase()\<close>\<close>

definition joinSpace :: "string list \<Rightarrow> string" where
  "joinSpace ss = (case ss of [] \<Rightarrow> [] | s # r \<Rightarrow> foldl (\<lambda>acc t. acc @ '' '' @ t) s r)"

definition allSearchTerms :: "ListViewState \<Rightarrow> string" where
  "allSearchTerms st =
     toLowerCase (joinSpace (filter (\<lambda>s. s \<noteq> []) [searchTerm st, f_searchTerm (filters st)]))"

text \<open>\<open>x?.toLowerCase().includes(t)\<close>: \<open>undefined\<close>, which is falsy, when \<open>x\<close> is missing.\<close>

definition optIncludes :: "string option \<Rightarrow> string \<Rightarrow> bool" where
  "optIncludes x t = (case x of None \<Rightarrow> False | Some s \<Rightarrow> str_includes (toLowerCase s) t)"

definition matchesSearch :: "ListViewState \<Rightarrow> Deal \<Rightarrow> bool" where
  "matchesSearch st deal =
     (allSearchTerms st = [] \<or>
      optIncludes (deal_name deal) (allSearchTerms st) \<or>
      optIncludes (project_name deal) (allSearchTerms st) \<or>
      optIncludes (lead_name deal) (allSearchTerms st) \<or>
      optIncludes (customer_name deal) (allSearchTerms st) \<or>
      optIncludes (region deal) (allSearchTerms st))"

definition matchesLeadOwnerDropdown :: "ListViewState \<Rightarrow> Deal \<Rightarrow> bool" where
  "matchesLeadOwnerDropdown st deal =
     (leadOwnerFilter st = ''all'' \<or> lead_owner deal = Some (leadOwnerFilter st))"

definition matchesStages :: "AdvancedFilterState \<Rightarrow> Deal \<Rightarrow> bool" where
  "matchesStages f deal = (length (stages f) = 0 \<or> stage deal \<in> set (stages f))"

definition matchesRegions :: "AdvancedFilterState \<Rightarrow> Deal \<Rightarrow> bool" where
  "matchesRegions f deal =
     (length (regions f) = 0 \<or> orEmpty (region deal) \<in> set (regions f))"

definition matchesLeadOwners :: "AdvancedFilterState \<Rightarrow> Deal \<Rightarrow> bool" where
  "matchesLeadOwners f deal =
     (length (leadOwners f) = 0 \<or> orEmpty (lead_owner deal) \<in> set (leadOwners f))"

text \<open>\<open>String(deal.priority || '')\<close>: the empty string for a missing or zero value.\<close>

definition stringOrEmpty :: "int option \<Rightarrow> string" where
  "stringOrEmpty v = (case v of None \<Rightarrow> [] | Some n \<Rightarrow> if n = 0 then [] else intToString n)"

definition matchesPriorities :: "AdvancedFilterState \<Rightarrow> Deal \<Rightarrow> bool" where
  "matchesPriorities f deal =
     (length (priorities f) = 0 \<or> stringOrEmpty (priority deal) \<in> set (priorities f))"

definition matchesProbabilities :: "AdvancedFilterState \<Rightarrow> Deal \<Rightarrow> bool" where
  "matchesProbabilities f deal =
     (length (probabilities f) = 0 \<or> stringOrEmpty (probability deal) \<in> set (probabilities f))"

definition matchesHandoffStatuses :: "AdvancedFilterState \<Rightarrow> Deal \<Rightarrow> bool" where
  "matchesHandoffStatuses f deal =
     (length (handoffStatuses f) = 0 \<or> orEmpty (handoff_status deal) \<in> set (handoffStatuses f))"

definition dealProbability :: "Deal \<Rightarrow> number" where
  "dealProbability deal = orZero (map_option of_int (probability deal))"

definition matchesProbabilityRange :: "AdvancedFilterState \<Rightarrow> Deal \<Rightarrow> bool" where
  "matchesProbabilityRange f deal =
     (dealProbability deal \<ge> fst (probabilityRange f) \<and>
      dealProbability deal \<le> snd (probabilityRange f))"

definition dealMatches :: "ListViewState \<Rightarrow> Deal \<Rightarrow> bool" where
  "dealMatches st deal =
     (matchesSearch st deal \<and> matchesLeadOwnerDropdown st deal \<and>
      matchesStages (filters st) deal \<and> matchesRegions (filters st) deal \<and>
      matchesLeadOwners (filters st) deal \<and> matchesPriorities (filters st) deal \<and>
      matchesProbabilities (filters st) deal \<and> matchesHandoffStatuses (filters st) deal \<and>
      matchesProbabilityRange (filters st) deal)"

subsection \<open>The comparator\<close>

text \<open>
  The value a record is compared by. \<open>new Date(s)\<close> holds the time value
  \<open>Date.parse(s)\<close>, which is \<open>NaN\<close> for a string that is no date: the parser is the
  parameter \<open>Date_parse\<close>, with \<open>None\<close> for \<open>NaN\<close>. \<open>new Date(0)\<close> holds the time value 0.
\<close>

datatype sortval = NumKey number | DateKey "int option" | StrKey string

definition sortValue :: "(string \<Rightarrow> int option) \<Rightarrow> string \<Rightarrow> Deal \<Rightarrow> sortval" where
  "sortValue Date_parse sb a =
     (if sb \<in> set [''priority'', ''probability'', ''project_duration'']
      then NumKey (orZero (numericProp a sb))
      else if sb \<in> set [''total_contract_value'', ''total_revenue'']
      then NumKey (orZero (numericProp a sb))
      else if sb \<in> set [''expected_closing_date'', ''start_date'', ''end_date'',
                         ''created_at'', ''modified_at'', ''proposal_due_date'']
      then DateKey (case dateProp a sb of Some s \<Rightarrow> Date_parse s | None \<Rightarrow> Some 0)
      else StrKey (toLowerCase (orEmpty (textProp a sb))))"

text \<open>\<open>aValue < bValue\<close>: numbers and time values by size, where a comparison with
  \<open>NaN\<close> is false, and strings by code units. Both values come from the same branch.\<close>

fun val_lt :: "sortval \<Rightarrow> sortval \<Rightarrow> bool" where
  "val_lt (NumKey x) (NumKey y) = (x < y)"
| "val_lt (DateKey (Some x)) (DateKey (Some y)) = (x < y)"
| "val_lt (StrKey x) (StrKey y) = str_lt x y"
| "val_lt _ _ = False"

text \<open>Two keys of the same kind, neither the time value of an invalid date.\<close>

fun sameKind :: "sortval \<Rightarrow> sortval \<Rightarrow> bool" where
  "sameKind (NumKey x) (NumKey y) = True"
| "sameKind (DateKey (Some x)) (DateKey (Some y)) = True"
| "sameKind (StrKey x) (StrKey y) = True"
| "sameKind _ _ = False"

definition val_gt :: "sortval \<Rightarrow> sortval \<Rightarrow> bool" where
  "val_gt x y = val_lt y x"

definition compareDeals ::
  "(string \<Rightarrow> int option) \<Rightarrow> string \<Rightarrow> SortOrder \<Rightarrow> Deal \<Rightarrow> Deal \<Rightarrow> int" where
  "compareDeals Date_parse sb so a b =
     (let aValue = sortValue Date_parse sb a; bValue = sortValue Date_parse sb b
      in case so of
           Asc \<Rightarrow> (if val_lt aValue bValue then - 1 else if val_gt aValue bValue then 1 else 0)
         | Desc \<Rightarrow> (if val_gt aValue bValue then - 1 else if val_lt aValue bValue then 1 else 0))"

subsection \<open>The derived rows\<close>

definition filteredDeals :: "ListViewState \<Rightarrow> Deal list" where
  "filteredDeals st = filter (dealMatches st) (deals st)"

definition filteredAndSortedDeals :: "(string \<Rightarrow> int option) \<Rightarrow> ListViewState \<Rightarrow> Deal list" where
  "filteredAndSortedDeals Date_parse st =
     Array_sort (compareDeals Date_parse (sortBy st) (sortOrder st)) (filteredDeals st)"

text \<open>\<open>Math.ceil(filteredAndSortedDeals.length / itemsPerPage)\<close>. The quotient of an array
  length by 25 in double precision has the ceiling of the exact quotient.\<close>

definition Math_ceil :: "number \<Rightarrow> int" where
  "Math_ceil x = \<lceil>x\<rceil>"

definition totalPages :: "(string \<Rightarrow> int option) \<Rightarrow> ListViewState \<Rightarrow> int" where
  "totalPages Date_parse st =
     Math_ceil (of_nat (length (filteredAndSortedDeals Date_parse st)) / of_int itemsPerPage)"

definition startIndex :: "ListViewState \<Rightarrow> int" where
  "startIndex st = (currentPage st - 1) * itemsPerPage"

definition paginatedDeals :: "(string \<Rightarrow> int option) \<Rightarrow> ListViewState \<Rightarrow> Deal list" where
  "paginatedDeals Date_parse st =
     slice (filteredAndSortedDeals Date_parse st) (startIndex st) (startIndex st + itemsPerPage)"

text \<open>The page label \<open>Page {currentPage} of {totalPages || 1}\<close>.\<close>

definition pageLabelTotal :: "(string \<Rightarrow> int option) \<Rightarrow> ListViewState \<Rightarrow> int" where
  "pageLabelTotal Date_parse st =
     (if totalPages Date_parse st = 0 then 1 else totalPages Date_parse st)"

text \<open>The pagination bar is rendered under the guard \<open>totalPages > 0\<close>.\<close>

definition paginationShown :: "(string \<Rightarrow> int option) \<Rightarrow> ListViewState \<Rightarrow> bool" where
  "paginationShown Date_parse st = (totalPages Date_parse st > 0)"

subsection \<open>Selection and bulk actions\<close>

definition handleSelectAll ::
  "(string \<Rightarrow> int option) \<Rightarrow> bool \<Rightarrow> ListViewState \<Rightarrow> ListViewState" where
  "handleSelectAll Date_parse checked st =
     (if checked
      then st\<lparr>selectedDeals := set (map deal_id (filteredAndSortedDeals Date_parse st))\<rparr>
      else st\<lparr>selectedDeals := {}\<rparr>)"

definition handleSelectDeal :: "string \<Rightarrow> bool \<Rightarrow> ListViewState \<Rightarrow> ListViewState" where
  "handleSelectDeal dealId checked st =
     (if checked then st\<lparr>selectedDeals := insert dealId (selectedDeals st)\<rparr>
      else st\<lparr>selectedDeals := selectedDeals st - {dealId}\<rparr>)"

definition handleBulkDelete :: "ListViewState \<Rightarrow> ListViewState" where
  "handleBulkDelete st =
     (if selectedDeals st = {} then st
      else st\<lparr>onDeleteDeals_calls := onDeleteDeals_calls st @ [selectedDeals st],
              selectedDeals := {},
              toasts := toasts st @
                [\<lparr>title = ''Deals deleted'',
                  description = ''Successfully deleted '' @
                    intToString (int (card (selectedDeals st))) @ '' deals'',
                  variant = None\<rparr>]\<rparr>)"

text \<open>The header checkbox is drawn checked when
  \<open>selectedDeals.size === paginatedDeals.length && paginatedDeals.length > 0\<close>.\<close>

definition headerChecked :: "(string \<Rightarrow> int option) \<Rightarrow> ListViewState \<Rightarrow> bool" where
  "headerChecked Date_parse st =
     (card (selectedDeals st) = length (paginatedDeals Date_parse st) \<and>
      length (paginatedDeals Date_parse st) > 0)"

subsection \<open>Inline edit\<close>

text \<open>
  \<open>await onUpdateDeal(dealId, {[field]: value})\<close> either resolves or throws; the callback
  is the caller's, so its outcome is a parameter. The call is logged.
\<close>

datatype outcome = Resolved | Rejected

definition updatedToast :: Toast where
  "updatedToast =
     \<lparr>title = ''Deal updated'', description = ''Field updated successfully'', variant = None\<rparr>"

definition updateFailedToast :: Toast where
  "updateFailedToast =
     \<lparr>title = ''Update failed'', description = ''Failed to update deal field'',
      variant = Some ''destructive''\<rparr>"

definition handleInlineEdit ::
  "(string \<Rightarrow> string \<Rightarrow> jsval \<Rightarrow> outcome) \<Rightarrow> string \<Rightarrow> string \<Rightarrow> jsval \<Rightarrow>
   ListViewState \<Rightarrow> ListViewState" where
  "handleInlineEdit onUpdateDeal dealId field v st =
     (let st1 = st\<lparr>onUpdateDeal_calls := onUpdateDeal_calls st @ [(dealId, field, v)]\<rparr>
      in case onUpdateDeal dealId field v of
           Resolved \<Rightarrow> st1\<lparr>toasts := toasts st1 @ [updatedToast]\<rparr>
         | Rejected \<Rightarrow> st1\<lparr>toasts := toasts st1 @ [updateFailedToast]\<rparr>)"

subsection \<open>Column widths\<close>

definition defaultColumnWidths :: "string \<rightharpoonup> number" where
  "defaultColumnWidths =
     [''project_name'' \<mapsto> 200, ''customer_name'' \<mapsto> 150, ''lead_name'' \<mapsto> 150,
      ''lead_owner'' \<mapsto> 140, ''stage'' \<mapsto> 120, ''priority'' \<mapsto> 100,
      ''total_contract_value'' \<mapsto> 120, ''probability'' \<mapsto> 120,
      ''expected_closing_date'' \<mapsto> 140, ''region'' \<mapsto> 120, ''project_duration'' \<mapsto> 120,
      ''start_date'' \<mapsto> 120, ''end_date'' \<mapsto> 120, ''proposal_due_date'' \<mapsto> 140,
      ''total_revenue'' \<mapsto> 120]"

text \<open>\<open>columnWidths[field] || 120\<close>\<close>

definition widthOf :: "(string \<rightharpoonup> number) \<Rightarrow> string \<Rightarrow> number" where
  "widthOf ws field = (case ws field of None \<Rightarrow> 120 | Some w \<Rightarrow> if w = 0 then 120 else w)"

definition handleMouseDown :: "number \<Rightarrow> string \<Rightarrow> ListViewState \<Rightarrow> ListViewState" where
  "handleMouseDown clientX field st =
     st\<lparr>isResizing := Some field, startX := clientX,
        startWidth := widthOf (columnWidths st) field\<rparr>"

text \<open>\<open>if (!isResizing) return\<close>: \<open>null\<close> and the empty string are falsy.\<close>

definition handleMouseMove :: "number \<Rightarrow> ListViewState \<Rightarrow> ListViewState" where
  "handleMouseMove clientX st =
     (case isResizing st of
        None \<Rightarrow> st
      | Some field \<Rightarrow>
          if field = [] then st
          else (let deltaX = clientX - startX st;
                    newWidth = max 80 (startWidth st + deltaX)
                in st\<lparr>columnWidths := (columnWidths st)(field \<mapsto> newWidth)\<rparr>))"

text \<open>
  The effect that loads the saved widths at mount. \<open>saved\<close> is the result of
  \<open>localStorage.getItem('deals-column-widths')\<close>. The item is written by
  \<open>handleMouseUp\<close> alone, as \<open>JSON.stringify\<close> of a width record, so a text that parses
  is taken to parse to such a record; \<open>JSON.parse\<close> is a parameter.
\<close>

datatype 'a parsed = SyntaxError | Parsed 'a

definition loadColumnWidths ::
  "(string \<Rightarrow> (string \<rightharpoonup> number) parsed) \<Rightarrow> string option \<Rightarrow> ListViewState \<Rightarrow> ListViewState" where
  "loadColumnWidths JSON_parse saved st =
     (case saved of
        None \<Rightarrow> st
      | Some savedWidths \<Rightarrow>
          if savedWidths = [] then st
          else (case JSON_parse savedWidths of
                  Parsed p \<Rightarrow> st\<lparr>columnWidths := p\<rparr>
                | SyntaxError \<Rightarrow>
                    st\<lparr>console_errors := console_errors st @
                         [''Failed to parse saved column widths:'']\<rparr>))"

text \<open>What the spec describes instead: the saved entries laid over the defaults, entries
  of fields that have no default dropped.\<close>

definition mergeOverDefaults :: "(string \<rightharpoonup> number) \<Rightarrow> (string \<rightharpoonup> number) \<Rightarrow> (string \<rightharpoonup> number)" where
  "mergeOverDefaults defaults p =
     (\<lambda>f. case defaults f of None \<Rightarrow> None
                            | Some w \<Rightarrow> (case p f of None \<Rightarrow> Some w | Some v \<Rightarrow> Some v))"

subsection \<open>The state at mount and its transitions\<close>

definition initialFilters :: "string \<Rightarrow> AdvancedFilterState" where
  "initialFilters initialStageFilter =
     \<lparr>stages = (if initialStageFilter \<noteq> ''all'' then [initialStageFilter] else []),
      regions = [], leadOwners = [], priorities = [], probabilities = [],
      handoffStatuses = [], f_searchTerm = [], probabilityRange = (0, 100)\<rparr>"

definition initialState :: "Deal list \<Rightarrow> string \<Rightarrow> ListViewState" where
  "initialState ds initialStageFilter =
     \<lparr>deals = ds, searchTerm = [], leadOwnerFilter = ''all'',
      filters = initialFilters initialStageFilter,
      sortBy = ''modified_at'', sortOrder = Desc, selectedDeals = {}, currentPage = 1,
      columnWidths = defaultColumnWidths, isResizing = None, startX = 0, startWidth = 0,
      toasts = [], console_errors = [], onUpdateDeal_calls = [], onDeleteDeals_calls = []\<rparr>"





subsection \<open>The filter with one dimension left out\<close>

text \<open>
  The categorical dimensions of the filter state, the allowed-set of each, and the
  predicate of the spec's no-op property: the conjunction of \<open>dealMatches\<close> without the
  conjunct of one dimension.
\<close>

datatype dimension =
  StageDim | RegionDim | OwnerDim | PriorityDim | ProbabilityBucketDim | HandoffDim

fun allowedSet :: "dimension \<Rightarrow> AdvancedFilterState \<Rightarrow> string list" where
  "allowedSet StageDim f = stages f"
| "allowedSet RegionDim f = regions f"
| "allowedSet OwnerDim f = leadOwners f"
| "allowedSet PriorityDim f = priorities f"
| "allowedSet ProbabilityBucketDim f = probabilities f"
| "allowedSet HandoffDim f = handoffStatuses f"

definition dealMatchesOmitting :: "dimension \<Rightarrow> ListViewState \<Rightarrow> Deal \<Rightarrow> bool" where
  "dealMatchesOmitting dm st deal =
     (matchesSearch st deal \<and> matchesLeadOwnerDropdown st deal \<and>
      (dm = StageDim \<or> matchesStages (filters st) deal) \<and>
      (dm = RegionDim \<or> matchesRegions (filters st) deal) \<and>
      (dm = OwnerDim \<or> matchesLeadOwners (filters st) deal) \<and>
      (dm = PriorityDim \<or> matchesPriorities (filters st) deal) \<and>
      (dm = ProbabilityBucketDim \<or> matchesProbabilities (filters st) deal) \<and>
      (dm = HandoffDim \<or> matchesHandoffStatuses (filters st) deal) \<and>
      matchesProbabilityRange (filters st) deal)"

subsection \<open>Sample inputs\<close>

text \<open>A deal with an identifier and a stage and every optional field missing, and the
  list of \<open>n\<close> such deals with the identifiers 1 to \<open>n\<close>.\<close>

definition blankDeal :: "string \<Rightarrow> Deal" where
  "blankDeal ident =
     \<lparr>deal_id = ident, deal_name = None, project_name = None, lead_name = None,
      customer_name = None, region = None, lead_owner = None, stage = ''Lead'',
      priority = None, probability = None, handoff_status = None,
      total_contract_value = None, total_revenue = None, project_duration = None,
      expected_closing_date = None, start_date = None, end_date = None,
      created_at = None, modified_at = None, proposal_due_date = None\<rparr>"

definition numberedDeals :: "nat \<Rightarrow> Deal list" where
  "numberedDeals n = map (\<lambda>i. blankDeal (natToString i)) [1..<Suc n]"

text \<open>A date parser that knows two ISO dates (milliseconds since the epoch) and rejects
  every other string, as \<open>Date.parse\<close> does for a text that is no date.\<close>

definition Date_parse_sample :: "string \<Rightarrow> int option" where
  "Date_parse_sample s =
     (if s = ''2024-01-01'' then Some 1704067200000
      else if s = ''2023-06-15'' then Some 1686787200000
      else None)"

text \<open>A JSON parser that knows one saved width record and rejects every other text.\<close>

definition JSON_parse_sample :: "string \<Rightarrow> (string \<rightharpoonup> number) parsed" where
  \<open>JSON_parse_sample s =
     (if s = ''{"stage":300,"notes":90}'' then Parsed [''stage'' \<mapsto> 300, ''notes'' \<mapsto> 90]
      else SyntaxError)\<close>

text \<open>An update callback that rejects every edit.\<close>

definition rejectingUpdate :: "string \<Rightarrow> string \<Rightarrow> jsval \<Rightarrow> outcome" where
  "rejectingUpdate dealId field v = Rejected"

text \<open>The mounted view of one blank deal with the probability range set to \<open>r\<close>.\<close>

definition narrowed :: "number \<times> number \<Rightarrow> ListViewState" where
  "narrowed r =
     (initialState [blankDeal ''1''] ''all'')
       \<lparr>filters := (initialFilters ''all'')\<lparr>probabilityRange := r\<rparr>\<rparr>"

text \<open>Four deals with two probabilities, each twice, and the deals of probability 50.\<close>

definition tiedDeals :: "Deal list" where
  "tiedDeals =
     [(blankDeal ''1'')\<lparr>probability := Some 50\<rparr>,
      (blankDeal ''2'')\<lparr>probability := Some 20\<rparr>,
      (blankDeal ''3'')\<lparr>probability := Some 50\<rparr>,
      (blankDeal ''4'')\<lparr>probability := Some 20\<rparr>]"


text \<open>A deal with an expected closing date, and the mounted view sorted by that date,
  ascending.\<close>

definition datedDeal :: "string \<Rightarrow> string option \<Rightarrow> Deal" where
  "datedDeal ident d = (blankDeal ident)\<lparr>expected_closing_date := d\<rparr>"

definition byClosingDate :: "Deal list \<Rightarrow> ListViewState" where
  "byClosingDate ds =
     (initialState ds ''all'')\<lparr>sortBy := ''expected_closing_date'', sortOrder := Asc\<rparr>"


section \<open>Properties\<close>

subsection \<open>The sort keeps every element\<close>

lemma length_insertBy: "length (insertBy cmp x ys) = Suc (length ys)"
  by (induction ys) auto

lemma length_Array_sort: "length (Array_sort cmp xs) = length xs"
  by (induction xs) (auto simp: length_insertBy)

lemma set_insertBy: "set (insertBy cmp x ys) = insert x (set ys)"
  by (induction ys) auto

lemma set_Array_sort: "set (Array_sort cmp xs) = set xs"
  by (induction xs) (auto simp: set_insertBy)

text \<open>An element moves past those it compares greater than and no others, so elements
  that compare equal among themselves stay in their order.\<close>

lemma filter_insertBy_in:
  "P x \<Longrightarrow> \<forall>y\<in>set ys. P y \<longrightarrow> cmp x y \<le> 0 \<Longrightarrow>
   filter P (insertBy cmp x ys) = x # filter P ys"
  by (induction ys) auto

lemma filter_insertBy_out: "\<not> P x \<Longrightarrow> filter P (insertBy cmp x ys) = filter P ys"
  by (induction ys) auto

lemma Array_sort_ties:
  "\<forall>a\<in>set xs. \<forall>b\<in>set xs. P a \<and> P b \<longrightarrow> cmp a b = 0 \<Longrightarrow>
   filter P (Array_sort cmp xs) = filter P xs"
proof (induction xs)
  case Nil
  then show ?case by simp
next
  case (Cons x xs)
  have ih: "filter P (Array_sort cmp xs) = filter P xs"
    using Cons by simp
  show ?case
  proof (cases "P x")
    case True
    have "\<forall>y\<in>set (Array_sort cmp xs). P y \<longrightarrow> cmp x y \<le> 0"
      using Cons.prems True by (simp add: set_Array_sort)
    then show ?thesis using True ih by (simp add: filter_insertBy_in)
  next
    case False
    then show ?thesis using ih by (simp add: filter_insertBy_out)
  qed
qed

lemma Array_sort_all_ties:
  "\<forall>a\<in>set xs. \<forall>b\<in>set xs. cmp a b = 0 \<Longrightarrow> Array_sort cmp xs = xs"
  using Array_sort_ties [of xs "\<lambda>_. True" cmp] by simp

lemma str_lt_irrefl: "\<not> str_lt s s"
  by (induction s) auto

lemma val_lt_irrefl: "\<not> val_lt k k"
proof (cases k)
  case (DateKey t)
  then show ?thesis by (cases t) simp_all
qed (simp_all add: str_lt_irrefl)

lemma compareDeals_same_key:
  "sortValue dp sb a = sortValue dp sb b \<Longrightarrow> compareDeals dp sb so a b = 0"
  by (cases so) (simp_all add: compareDeals_def Let_def val_gt_def val_lt_irrefl)

subsection \<open>The sorted rows are in order\<close>

text \<open>The result is a permutation of the input for every comparator, and it is in order
  for a comparator that is total and transitive on the elements.\<close>

lemma mset_insertBy: "mset (insertBy cmp x ys) = add_mset x (mset ys)"
  by (induction ys) auto

lemma mset_Array_sort: "mset (Array_sort cmp xs) = mset xs"
  by (induction xs) (auto simp: mset_insertBy)

lemma sorted_insertBy:
  assumes total: "\<And>a b. a \<in> S \<Longrightarrow> b \<in> S \<Longrightarrow> cmp a b \<le> 0 \<or> cmp b a \<le> 0"
    and trans: "\<And>a b c. a \<in> S \<Longrightarrow> b \<in> S \<Longrightarrow> c \<in> S \<Longrightarrow>
                  cmp a b \<le> 0 \<Longrightarrow> cmp b c \<le> 0 \<Longrightarrow> cmp a c \<le> 0"
    and x: "x \<in> S"
  shows "set ys \<subseteq> S \<Longrightarrow> sorted_wrt (\<lambda>a b. cmp a b \<le> 0) ys \<Longrightarrow>
         sorted_wrt (\<lambda>a b. cmp a b \<le> 0) (insertBy cmp x ys)"
proof (induction ys)
  case Nil
  then show ?case by simp
next
  case (Cons y ys)
  show ?case
  proof (cases "cmp x y \<le> 0")
    case True
    have "cmp x z \<le> 0" if "z \<in> set ys" for z
    proof -
      have "cmp y z \<le> 0" using Cons.prems(2) that by simp
      then show ?thesis using trans [of x y z] True x Cons.prems(1) that by auto
    qed
    then show ?thesis using True Cons.prems by simp
  next
    case False
    then have "cmp y x \<le> 0" using total [of x y] x Cons.prems(1) by auto
    then show ?thesis using False Cons by (auto simp: set_insertBy)
  qed
qed

lemma sorted_Array_sort:
  assumes total: "\<And>a b. a \<in> set xs \<Longrightarrow> b \<in> set xs \<Longrightarrow> cmp a b \<le> 0 \<or> cmp b a \<le> 0"
    and trans: "\<And>a b c. a \<in> set xs \<Longrightarrow> b \<in> set xs \<Longrightarrow> c \<in> set xs \<Longrightarrow>
                  cmp a b \<le> 0 \<Longrightarrow> cmp b c \<le> 0 \<Longrightarrow> cmp a c \<le> 0"
  shows "sorted_wrt (\<lambda>a b. cmp a b \<le> 0) (Array_sort cmp xs)"
proof -
  have "set ys \<subseteq> set xs \<Longrightarrow> sorted_wrt (\<lambda>a b. cmp a b \<le> 0) (Array_sort cmp ys)" for ys
  proof (induction ys)
    case Nil
    then show ?case by simp
  next
    case (Cons y ys)
    have "sorted_wrt (\<lambda>a b. cmp a b \<le> 0) (insertBy cmp y (Array_sort cmp ys))"
    proof (rule sorted_insertBy [where S = "set xs"])
      show "y \<in> set xs" using Cons.prems by simp
      show "set (Array_sort cmp ys) \<subseteq> set xs" using Cons.prems by (simp add: set_Array_sort)
      show "sorted_wrt (\<lambda>a b. cmp a b \<le> 0) (Array_sort cmp ys)"
        using Cons by simp
    qed (use total trans in blast)+
    then show ?case by simp
  qed
  then show ?thesis by simp
qed

text \<open>The order of two strings is a strict linear order.\<close>

lemma str_lt_trans: "str_lt a b \<Longrightarrow> str_lt b c \<Longrightarrow> str_lt a c"
proof (induction a b arbitrary: c rule: str_lt.induct)
  case 1
  then show ?case by simp
next
  case (2 c' t)
  then show ?case by (cases c) simp_all
next
  case (3 d s)
  then show ?case by simp
next
  case (4 d s c' t)
  then show ?case by (cases c) auto
qed

lemma str_lt_linear: "str_lt a b \<or> a = b \<or> str_lt b a"
proof (induction a b rule: str_lt.induct)
  case (4 d s c t)
  have "(of_char d :: nat) = of_char c \<Longrightarrow> d = c"
    by (simp only: of_char_eq_iff)
  then show ?case using 4 by (auto simp: not_less)
qed simp_all

lemma str_lt_asym: "str_lt a b \<Longrightarrow> \<not> str_lt b a"
  using str_lt_trans str_lt_irrefl by blast

lemma val_lt_asym: "val_lt a b \<Longrightarrow> \<not> val_lt b a"
  by (induction a b rule: val_lt.induct) (auto dest: str_lt_asym)

lemma str_lt_negtrans: "\<not> str_lt b a \<Longrightarrow> \<not> str_lt c b \<Longrightarrow> \<not> str_lt c a"
  using str_lt_linear [of a b] str_lt_trans by blast

lemma val_lt_negtrans:
  assumes "sameKind a b" and "sameKind b c" and "\<not> val_lt b a" and "\<not> val_lt c b"
  shows "\<not> val_lt c a"
  using assms by (elim sameKind.elims) (auto dest: str_lt_negtrans)

lemma sortValue_kind:
  "(\<forall>d. \<exists>x. sortValue dp sb d = NumKey x) \<or> (\<forall>d. \<exists>t. sortValue dp sb d = DateKey t) \<or>
   (\<forall>d. \<exists>s. sortValue dp sb d = StrKey s)"
  unfolding sortValue_def by (simp del: list.set)

lemma sameKind_sortValue:
  "sortValue dp sb a \<noteq> DateKey None \<Longrightarrow> sortValue dp sb b \<noteq> DateKey None \<Longrightarrow>
   sameKind (sortValue dp sb a) (sortValue dp sb b)"
  using sortValue_kind [of dp sb]
proof (elim disjE)
  assume "\<forall>d. \<exists>x. sortValue dp sb d = NumKey x"
  then obtain x y where "sortValue dp sb a = NumKey x" "sortValue dp sb b = NumKey y"
    by blast
  then show ?thesis by simp
next
  assume "\<forall>d. \<exists>t. sortValue dp sb d = DateKey t"
  then obtain x y where e: "sortValue dp sb a = DateKey x" "sortValue dp sb b = DateKey y"
    by blast
  assume "sortValue dp sb a \<noteq> DateKey None" "sortValue dp sb b \<noteq> DateKey None"
  then obtain x' y' where "x = Some x'" "y = Some y'"
    using e by (cases x; cases y) auto
  then show ?thesis using e by simp
next
  assume "\<forall>d. \<exists>s. sortValue dp sb d = StrKey s"
  then obtain x y where "sortValue dp sb a = StrKey x" "sortValue dp sb b = StrKey y"
    by blast
  then show ?thesis by simp
qed

text \<open>When no sort key is an invalid date, the filtered and sorted rows are in the order
  of the comparator.\<close>

lemma compareDeals_le:
  "(compareDeals dp sb Asc a b \<le> 0) = (\<not> val_lt (sortValue dp sb b) (sortValue dp sb a))"
  "(compareDeals dp sb Desc a b \<le> 0) = (\<not> val_lt (sortValue dp sb a) (sortValue dp sb b))"
  using val_lt_asym [of "sortValue dp sb a" "sortValue dp sb b"]
  by (auto simp: compareDeals_def Let_def val_gt_def)

lemma filteredAndSortedDeals_ordered:
  assumes valid: "\<forall>d\<in>set (filteredDeals st). sortValue dp (sortBy st) d \<noteq> DateKey None"
  shows "sorted_wrt (\<lambda>a b. compareDeals dp (sortBy st) (sortOrder st) a b \<le> 0)
           (filteredAndSortedDeals dp st)"
  unfolding filteredAndSortedDeals_def
proof (rule sorted_Array_sort)
  fix a b
  assume "a \<in> set (filteredDeals st)" "b \<in> set (filteredDeals st)"
  show "compareDeals dp (sortBy st) (sortOrder st) a b \<le> 0 \<or>
        compareDeals dp (sortBy st) (sortOrder st) b a \<le> 0"
    using val_lt_asym [of "sortValue dp (sortBy st) a" "sortValue dp (sortBy st) b"]
    by (cases "sortOrder st") (auto simp: compareDeals_le)
next
  fix a b c
  assume m: "a \<in> set (filteredDeals st)" "b \<in> set (filteredDeals st)"
    "c \<in> set (filteredDeals st)"
    and le: "compareDeals dp (sortBy st) (sortOrder st) a b \<le> 0"
      "compareDeals dp (sortBy st) (sortOrder st) b c \<le> 0"
  have k: "sameKind (sortValue dp (sortBy st) a) (sortValue dp (sortBy st) b)"
    "sameKind (sortValue dp (sortBy st) b) (sortValue dp (sortBy st) c)"
    "sameKind (sortValue dp (sortBy st) c) (sortValue dp (sortBy st) b)"
    "sameKind (sortValue dp (sortBy st) b) (sortValue dp (sortBy st) a)"
    using m valid by (simp_all add: sameKind_sortValue)
  show "compareDeals dp (sortBy st) (sortOrder st) a c \<le> 0"
  proof (cases "sortOrder st")
    case Asc
    then show ?thesis
      using le k val_lt_negtrans [of "sortValue dp (sortBy st) a" "sortValue dp (sortBy st) b"
          "sortValue dp (sortBy st) c"]
      by (simp add: compareDeals_le)
  next
    case Desc
    then show ?thesis
      using le k val_lt_negtrans [of "sortValue dp (sortBy st) c" "sortValue dp (sortBy st) b"
          "sortValue dp (sortBy st) a"]
      by (simp add: compareDeals_le)
  qed
qed

subsection \<open>Pages\<close>

lemma Math_ceil_div: "Math_ceil (of_nat n / of_int itemsPerPage) = (int n + 24) div 25"
proof -
  have "\<lceil>(of_int (int n) :: rat) / of_int 25\<rceil> = - ((- int n) div 25)"
    by (rule ceiling_divide_eq_div)
  then show ?thesis
    by (simp add: Math_ceil_def itemsPerPage_def)
qed

lemma totalPages_div:
  "totalPages dp st = (int (length (filteredDeals st)) + 24) div 25"
  by (simp add: totalPages_def Math_ceil_div filteredAndSortedDeals_def length_Array_sort)

lemma slice_nonneg:
  "0 \<le> s \<Longrightarrow> s \<le> e \<Longrightarrow> slice xs s e = take (nat (e - s)) (drop (nat s) xs)"
  by (auto simp: slice_def relIndex_def Let_def min_def nat_diff_distrib)

lemma paginatedDeals_take_drop:
  "1 \<le> currentPage st \<Longrightarrow>
   paginatedDeals dp st =
     take 25 (drop (nat ((currentPage st - 1) * 25)) (filteredAndSortedDeals dp st))"
  by (simp add: paginatedDeals_def startIndex_def itemsPerPage_def slice_nonneg)

subsection \<open>The sample deals\<close>

lemma dealMatches_blank: "dealMatches (initialState ds ''all'') (blankDeal i)"
  by (simp add: dealMatches_def initialState_def initialFilters_def matchesSearch_def
      allSearchTerms_def joinSpace_def toLowerCase_def matchesLeadOwnerDropdown_def
      matchesStages_def matchesRegions_def matchesLeadOwners_def matchesPriorities_def
      matchesProbabilities_def matchesHandoffStatuses_def matchesProbabilityRange_def
      dealProbability_def orZero_def blankDeal_def)

lemma filteredDeals_numbered:
  "filteredDeals (initialState (numberedDeals n) ''all'') = numberedDeals n"
proof -
  have d: "deals (initialState (numberedDeals n) ''all'') = numberedDeals n"
    by (simp add: initialState_def)
  have "\<forall>x\<in>set (numberedDeals n). dealMatches (initialState (numberedDeals n) ''all'') x"
    by (auto simp: numberedDeals_def dealMatches_blank)
  then show ?thesis
    unfolding filteredDeals_def d by simp
qed

lemma compare_blank: "compareDeals dp ''modified_at'' so (blankDeal i) (blankDeal j) = 0"
  by (rule compareDeals_same_key) (simp add: sortValue_def dateProp_def blankDeal_def)

lemma sorted_numbered:
  "filteredAndSortedDeals dp (initialState (numberedDeals n) ''all'') = numberedDeals n"
proof -
  have "Array_sort (compareDeals dp ''modified_at'' Desc) (numberedDeals n) = numberedDeals n"
    by (rule Array_sort_all_ties) (auto simp: numberedDeals_def compare_blank)
  then show ?thesis
    by (simp add: filteredAndSortedDeals_def filteredDeals_numbered) (simp add: initialState_def)
qed

subsection \<open>Resizing a column\<close>

text \<open>
  C9. While a resize session is active (\<open>isResizing\<close> holds the name of a field; the
  handler takes \<open>null\<close> and the empty name for no session), a pointer move to \<open>clientX\<close>
  sets the width of that field to the larger of 80 and the starting width plus the
  distance the pointer has travelled; a request below 80 gives exactly 80.
\<close>

theorem resize_width_floor:
  assumes "isResizing st = Some field" and "field \<noteq> []"
  shows "columnWidths (handleMouseMove clientX st) field =
           Some (max 80 (startWidth st + (clientX - startX st))) \<and>
         (startWidth st + (clientX - startX st) < 80 \<longrightarrow>
            columnWidths (handleMouseMove clientX st) field = Some 80)"
  using assms by (simp add: handleMouseMove_def Let_def)

theorem resize_width_floor_witness:
  "isResizing (handleMouseDown 500 ''stage'' (initialState [] ''all'')) = Some ''stage'' \<and>
   ''stage'' \<noteq> [] \<and>
   startWidth (handleMouseDown 500 ''stage'' (initialState [] ''all'')) +
     (400 - startX (handleMouseDown 500 ''stage'' (initialState [] ''all''))) < 80 \<and>
   columnWidths (handleMouseMove 400 (handleMouseDown 500 ''stage'' (initialState [] ''all'')))
     ''stage'' = Some 80"
proof -
  have a: "isResizing (handleMouseDown 500 ''stage'' (initialState [] ''all'')) = Some ''stage''"
    by (simp add: handleMouseDown_def)
  have b: "''stage'' \<noteq> []" by simp
  have c: "startWidth (handleMouseDown 500 ''stage'' (initialState [] ''all'')) +
     (400 - startX (handleMouseDown 500 ''stage'' (initialState [] ''all''))) < 80"
    by (simp add: handleMouseDown_def initialState_def defaultColumnWidths_def widthOf_def)
  show ?thesis
    using resize_width_floor [OF a b, of 400] a c by simp
qed

text \<open>The same for a whole gesture: the session starts from the width the column is
  drawn with.\<close>

lemma resize_session:
  "field \<noteq> [] \<Longrightarrow>
   columnWidths (handleMouseMove x (handleMouseDown x0 field st)) field =
     Some (max 80 (widthOf (columnWidths st) field + (x - x0)))"
  by (simp add: handleMouseMove_def handleMouseDown_def Let_def)

subsection \<open>The probability range and a missing probability\<close>

text \<open>
  C10, as stated: a record without a probability passes the range check if and only if
  the lower bound of the range is at most 0. That fails for a range that lies below 0:
  the record counts as probability 0 and the upper bound excludes it.
\<close>

theorem missing_probability_range_counterexample:
  "probability (blankDeal ''1'') = None \<and>
   fst (probabilityRange (filters (narrowed (- 10, - 5)))) \<le> 0 \<and>
   \<not> matchesProbabilityRange (filters (narrowed (- 10, - 5))) (blankDeal ''1'')"
  by (simp add: narrowed_def blankDeal_def matchesProbabilityRange_def dealProbability_def
      orZero_def)

text \<open>
  C10, amended. A record whose probability is missing or 0 is compared as probability 0:
  it passes the range check if and only if the lower bound is at most 0 and the upper
  bound is at least 0. A range whose lower bound is above 0 excludes it from the
  filtered records.
\<close>

theorem missing_probability_range:
  assumes "probability deal = None \<or> probability deal = Some 0"
  shows "dealProbability deal = 0 \<and>
         matchesProbabilityRange (filters st) deal =
           (fst (probabilityRange (filters st)) \<le> 0 \<and> 0 \<le> snd (probabilityRange (filters st))) \<and>
         (0 < fst (probabilityRange (filters st)) \<longrightarrow>
            \<not> matchesProbabilityRange (filters st) deal \<and> deal \<notin> set (filteredDeals st))"
  using assms
  by (auto simp: matchesProbabilityRange_def dealProbability_def orZero_def filteredDeals_def
      dealMatches_def)

theorem missing_probability_range_witness:
  "probability (blankDeal ''1'') = None \<and>
   0 < fst (probabilityRange (filters (narrowed (10, 100)))) \<and>
   \<not> matchesProbabilityRange (filters (narrowed (10, 100))) (blankDeal ''1'') \<and>
   filteredDeals (narrowed (10, 100)) = []"
proof -
  have a: "probability (blankDeal ''1'') = None"
    by (simp add: blankDeal_def)
  have b: "0 < fst (probabilityRange (filters (narrowed (10, 100))))"
    by (simp add: narrowed_def)
  have c: "deals (narrowed (10, 100)) = [blankDeal ''1'']"
    by (simp add: narrowed_def initialState_def)
  show ?thesis
    using missing_probability_range [of "blankDeal ''1''" "narrowed (10, 100)"] a b c
    by (auto simp: filteredDeals_def split: if_splits)
qed

subsection \<open>An empty allowed-set\<close>

text \<open>
  C6. When the allowed-set of a categorical dimension (stage, region, owner, priority,
  probability bucket, handoff status) is empty, a record passes the filter exactly when
  it passes the filter without the conjunct of that dimension, so the filtered records
  and the filtered and sorted records are those of the filter with the dimension left
  out.
\<close>

theorem empty_allowed_set_noop:
  assumes "allowedSet dm (filters st) = []"
  shows "dealMatches st deal = dealMatchesOmitting dm st deal \<and>
         filteredDeals st = filter (dealMatchesOmitting dm st) (deals st) \<and>
         filteredAndSortedDeals dp st =
           Array_sort (compareDeals dp (sortBy st) (sortOrder st))
             (filter (dealMatchesOmitting dm st) (deals st))"
proof -
  have eq: "dealMatches st d = dealMatchesOmitting dm st d" for d
    using assms
    by (cases dm)
      (auto simp: dealMatches_def dealMatchesOmitting_def matchesStages_def matchesRegions_def
        matchesLeadOwners_def matchesPriorities_def matchesProbabilities_def
        matchesHandoffStatuses_def)
  then have "dealMatches st = dealMatchesOmitting dm st"
    by (simp add: fun_eq_iff)
  then show ?thesis
    by (simp add: filteredDeals_def filteredAndSortedDeals_def)
qed

theorem empty_allowed_set_noop_witness:
  "allowedSet StageDim (filters (initialState (numberedDeals 3) ''all'')) = [] \<and>
   filter (dealMatchesOmitting StageDim (initialState (numberedDeals 3) ''all''))
     (deals (initialState (numberedDeals 3) ''all'')) = numberedDeals 3"
proof -
  have a: "allowedSet StageDim (filters (initialState (numberedDeals 3) ''all'')) = []"
    by (simp add: initialState_def initialFilters_def)
  show ?thesis
    using empty_allowed_set_noop [OF a] a filteredDeals_numbered [of 3] by simp
qed

subsection \<open>State changes that leave the rows alone\<close>

lemma dealMatches_currentPage: "dealMatches (st\<lparr>currentPage := c\<rparr>) = dealMatches st"
  by (rule ext)
    (simp add: dealMatches_def matchesSearch_def allSearchTerms_def matchesLeadOwnerDropdown_def)

lemma filteredAndSortedDeals_currentPage:
  "filteredAndSortedDeals dp (st\<lparr>currentPage := c\<rparr>) = filteredAndSortedDeals dp st"
  by (simp add: filteredAndSortedDeals_def filteredDeals_def dealMatches_currentPage)






lemma dealMatches_selectedDeals: "dealMatches (st\<lparr>selectedDeals := x\<rparr>) = dealMatches st"
  by (rule ext)
    (simp add: dealMatches_def matchesSearch_def allSearchTerms_def matchesLeadOwnerDropdown_def)

lemma paginatedDeals_selectedDeals:
  "paginatedDeals dp (st\<lparr>selectedDeals := x\<rparr>) = paginatedDeals dp st"
  by (simp add: paginatedDeals_def filteredAndSortedDeals_def filteredDeals_def
      dealMatches_selectedDeals startIndex_def)

lemma dealMatches_logs:
  "dealMatches (st\<lparr>onUpdateDeal_calls := a, toasts := b\<rparr>) = dealMatches st"
  by (rule ext)
    (simp add: dealMatches_def matchesSearch_def allSearchTerms_def matchesLeadOwnerDropdown_def)

lemma filteredAndSortedDeals_logs:
  "filteredAndSortedDeals dp (st\<lparr>onUpdateDeal_calls := a, toasts := b\<rparr>) =
     filteredAndSortedDeals dp st"
  by (simp add: filteredAndSortedDeals_def filteredDeals_def dealMatches_logs)

lemma paginatedDeals_logs:
  "paginatedDeals dp (st\<lparr>onUpdateDeal_calls := a, toasts := b\<rparr>) = paginatedDeals dp st"
  by (simp add: paginatedDeals_def filteredAndSortedDeals_logs startIndex_def)

subsection \<open>More on the sample deals\<close>

lemma length_numberedDeals: "length (numberedDeals n) = n"
  by (simp add: numberedDeals_def)

lemma page_numbered_small:
  "n \<le> 25 \<Longrightarrow> paginatedDeals dp (initialState (numberedDeals n) ''all'') = numberedDeals n"
proof -
  have "currentPage (initialState (numberedDeals n) ''all'') = 1"
    by (simp add: initialState_def)
  then show "n \<le> 25 \<Longrightarrow> ?thesis"
    by (simp add: paginatedDeals_take_drop sorted_numbered length_numberedDeals)
qed

lemma last_of_26_selected: "''26'' \<in> set (map deal_id (numberedDeals 26))"
  by (simp add: numberedDeals_def blankDeal_def natToString.simps digitChar_def upt_rec
      del: set_upt)

lemma last_of_26_off_page: "''26'' \<notin> set (map deal_id (take 25 (numberedDeals 26)))"
  by (simp add: numberedDeals_def blankDeal_def natToString.simps digitChar_def upt_rec
      del: set_upt)

lemma distinct_ids_26: "distinct (map deal_id (numberedDeals 26))"
  by (simp add: numberedDeals_def blankDeal_def natToString.simps digitChar_def upt_rec
      del: set_upt distinct_upt)

lemma ids_numbered_30_tail:
  "map deal_id (drop 25 (numberedDeals 30)) = [''26'', ''27'', ''28'', ''29'', ''30'']"
  by (simp add: numberedDeals_def upt_rec blankDeal_def natToString.simps digitChar_def)

lemma page1_of_26:
  "paginatedDeals dp (initialState (numberedDeals 26) ''all'') = take 25 (numberedDeals 26)"
proof -
  have "currentPage (initialState (numberedDeals 26) ''all'') = 1"
    by (simp add: initialState_def)
  then show ?thesis
    by (simp add: paginatedDeals_take_drop sorted_numbered)
qed



lemma dealMatches_dated: "dealMatches (byClosingDate ds) (datedDeal i d)"
  by (simp add: dealMatches_def byClosingDate_def datedDeal_def initialState_def
      initialFilters_def matchesSearch_def
      allSearchTerms_def joinSpace_def toLowerCase_def matchesLeadOwnerDropdown_def
      matchesStages_def matchesRegions_def matchesLeadOwners_def matchesPriorities_def
      matchesProbabilities_def matchesHandoffStatuses_def matchesProbabilityRange_def
      dealProbability_def orZero_def blankDeal_def)

lemma sortValue_dated:
  "sortValue dp ''expected_closing_date'' (datedDeal i d) =
     DateKey (case d of Some s \<Rightarrow> dp s | None \<Rightarrow> Some 0)"
  by (simp add: sortValue_def dateProp_def datedDeal_def)

lemma deals_byClosingDate: "deals (byClosingDate ds) = ds"
  by (simp add: byClosingDate_def initialState_def)

lemma sort_byClosingDate:
  "sortBy (byClosingDate ds) = ''expected_closing_date''" "sortOrder (byClosingDate ds) = Asc"
  by (simp_all add: byClosingDate_def)

lemma filteredAndSorted_dated_pair:
  "filteredAndSortedDeals dp (byClosingDate [datedDeal i d, datedDeal j e]) =
     Array_sort (compareDeals dp ''expected_closing_date'' Asc) [datedDeal i d, datedDeal j e]"
proof -
  have "filteredDeals (byClosingDate [datedDeal i d, datedDeal j e]) =
          [datedDeal i d, datedDeal j e]"
    by (simp add: filteredDeals_def deals_byClosingDate dealMatches_dated)
  then show ?thesis
    by (simp add: filteredAndSortedDeals_def sort_byClosingDate)
qed

subsection \<open>Stability of the sort\<close>



text \<open>The four sample deals in both directions: the ties keep their input order.\<close>

lemma sorted_tied_asc:
  "map deal_id (Array_sort (compareDeals Date_parse_sample ''probability'' Asc) tiedDeals) =
     [''2'', ''4'', ''1'', ''3'']"
  by (simp add: tiedDeals_def compareDeals_def sortValue_def numericProp_def orZero_def
      blankDeal_def val_gt_def)

lemma sorted_tied_desc:
  "map deal_id (Array_sort (compareDeals Date_parse_sample ''probability'' Desc) tiedDeals) =
     [''1'', ''3'', ''2'', ''4'']"
  by (simp add: tiedDeals_def compareDeals_def sortValue_def numericProp_def orZero_def
      blankDeal_def val_gt_def)

subsection \<open>The number of pages\<close>

text \<open>
  C2, as stated: the number of pages is at least 1 when the list is empty. With no deals
  \<open>Math.ceil(0 / 25)\<close> is 0.
\<close>

theorem totalPages_ceiling_counterexample:
  "filteredAndSortedDeals Date_parse_sample (initialState [] ''all'') = [] \<and>
   \<not> 1 \<le> totalPages Date_parse_sample (initialState [] ''all'')"
  by (simp add: totalPages_div filteredAndSortedDeals_def filteredDeals_def initialState_def)

text \<open>
  C2, amended. For \<open>n\<close> filtered records and the page size 25 the number of pages is the
  ceiling of \<open>n / 25\<close>: the least \<open>k\<close> with \<open>n \<le> 25 k\<close>. For the empty list it is 0;
  the pagination bar is then not rendered, and the page label alone would read 1. For 30
  records it is 2, page 1 holds the records 1 to 25 and page 2 the records 26 to 30.
\<close>

theorem totalPages_ceiling:
  "totalPages dp st = (int (length (filteredAndSortedDeals dp st)) + 24) div 25 \<and>
   (\<forall>k. (totalPages dp st \<le> k) = (int (length (filteredAndSortedDeals dp st)) \<le> 25 * k)) \<and>
   (filteredAndSortedDeals dp e = [] \<longrightarrow>
      totalPages dp e = 0 \<and> \<not> paginationShown dp e \<and> pageLabelTotal dp e = 1) \<and>
   (length (filteredAndSortedDeals dp s) = 30 \<longrightarrow>
      totalPages dp s = 2 \<and>
      paginatedDeals dp (s\<lparr>currentPage := 1\<rparr>) = take 25 (filteredAndSortedDeals dp s) \<and>
      paginatedDeals dp (s\<lparr>currentPage := 2\<rparr>) = drop 25 (filteredAndSortedDeals dp s))"
proof -
  have len: "length (filteredAndSortedDeals dp t) = length (filteredDeals t)" for t
    by (simp add: filteredAndSortedDeals_def length_Array_sort)
  have a: "totalPages dp st = (int (length (filteredAndSortedDeals dp st)) + 24) div 25"
    by (simp add: totalPages_div len)
  have b: "(totalPages dp st \<le> k) = (int (length (filteredAndSortedDeals dp st)) \<le> 25 * k)"
    for k
  proof -
    define q where "q = (int (length (filteredAndSortedDeals dp st)) + 24) div 25"
    define r where "r = (int (length (filteredAndSortedDeals dp st)) + 24) mod 25"
    have e: "int (length (filteredAndSortedDeals dp st)) + 24 = 25 * q + r"
      by (simp add: q_def r_def)
    have "0 \<le> r" and "r < 25" by (simp_all add: r_def)
    then show ?thesis unfolding a q_def [symmetric] using e by linarith
  qed
  have c: "totalPages dp e = 0 \<and> \<not> paginationShown dp e \<and> pageLabelTotal dp e = 1"
    if "filteredAndSortedDeals dp e = []"
    using that len [of e] by (simp add: totalPages_div paginationShown_def pageLabelTotal_def)
  have d: "totalPages dp s = 2 \<and>
      paginatedDeals dp (s\<lparr>currentPage := 1\<rparr>) = take 25 (filteredAndSortedDeals dp s) \<and>
      paginatedDeals dp (s\<lparr>currentPage := 2\<rparr>) = drop 25 (filteredAndSortedDeals dp s)"
    if "length (filteredAndSortedDeals dp s) = 30"
    using that len [of s]
    by (simp add: totalPages_div paginatedDeals_take_drop filteredAndSortedDeals_currentPage)
  show ?thesis using a b c d by blast
qed

theorem totalPages_ceiling_witness:
  "filteredAndSortedDeals Date_parse_sample (initialState [] ''all'') = [] \<and>
   length (filteredAndSortedDeals Date_parse_sample (initialState (numberedDeals 30) ''all'')) = 30 \<and>
   totalPages Date_parse_sample (initialState [] ''all'') = 0 \<and>
   totalPages Date_parse_sample (initialState (numberedDeals 30) ''all'') = 2 \<and>
   map deal_id (paginatedDeals Date_parse_sample
     ((initialState (numberedDeals 30) ''all'')\<lparr>currentPage := 2\<rparr>)) =
     [''26'', ''27'', ''28'', ''29'', ''30'']"
proof -
  have a: "filteredAndSortedDeals Date_parse_sample (initialState [] ''all'') = []"
    by (simp add: filteredAndSortedDeals_def filteredDeals_def initialState_def)
  have b: "length (filteredAndSortedDeals Date_parse_sample
             (initialState (numberedDeals 30) ''all'')) = 30"
    by (simp add: sorted_numbered length_numberedDeals)
  have c: "filteredAndSortedDeals Date_parse_sample (initialState (numberedDeals 30) ''all'')
            = numberedDeals 30"
    by (rule sorted_numbered)
  show ?thesis
    using totalPages_ceiling [of Date_parse_sample "initialState [] ''all''"
        "initialState [] ''all''" "initialState (numberedDeals 30) ''all''"] a b
    by (simp add: c ids_numbered_30_tail)
qed

subsection \<open>The current page\<close>




subsection \<open>Select all\<close>

text \<open>
  C1. Select-all is to select the identifiers of the records on the current page and no
  others, so that a bulk action works on the visible records only. The handler selects
  the identifiers of all filtered records: with 26 deals, no filter and page 1 shown, the
  page holds 25 rows and not the deal 26, select-all selects the deal 26 as well, the
  header checkbox (which compares the selection with the page) is then drawn unchecked,
  and bulk delete passes all 26 identifiers to the caller.
\<close>

theorem select_all_beyond_page:
  "length (filteredAndSortedDeals Date_parse_sample (initialState (numberedDeals 26) ''all'')) = 26 \<and>
   currentPage (initialState (numberedDeals 26) ''all'') = 1 \<and>
   length (paginatedDeals Date_parse_sample (initialState (numberedDeals 26) ''all'')) = 25 \<and>
   ''26'' \<notin> set (map deal_id
      (paginatedDeals Date_parse_sample (initialState (numberedDeals 26) ''all''))) \<and>
   ''26'' \<in> selectedDeals
      (handleSelectAll Date_parse_sample True (initialState (numberedDeals 26) ''all'')) \<and>
   \<not> headerChecked Date_parse_sample
      (handleSelectAll Date_parse_sample True (initialState (numberedDeals 26) ''all'')) \<and>
   onDeleteDeals_calls (handleBulkDelete
      (handleSelectAll Date_parse_sample True (initialState (numberedDeals 26) ''all''))) =
     [set (map deal_id (numberedDeals 26))]"
proof -
  let ?s = "initialState (numberedDeals 26) ''all''"
  have sel: "selectedDeals (handleSelectAll Date_parse_sample True ?s) =
      set (map deal_id (numberedDeals 26))"
    by (simp add: handleSelectAll_def sorted_numbered)
  have calls: "onDeleteDeals_calls (handleSelectAll Date_parse_sample True ?s) = []"
    by (simp add: handleSelectAll_def initialState_def)
  have page: "paginatedDeals Date_parse_sample (handleSelectAll Date_parse_sample True ?s) =
      take 25 (numberedDeals 26)"
    by (simp add: handleSelectAll_def paginatedDeals_selectedDeals page1_of_26)
  note in26 = last_of_26_selected
  note out26 = last_of_26_off_page
  have ne: "set (map deal_id (numberedDeals 26)) \<noteq> {}"
    using in26 by auto
  note dst = distinct_ids_26
  have crd: "card (set (map deal_id (numberedDeals 26))) = 26"
    using distinct_card [OF dst] by (simp only: length_map length_numberedDeals)
  have c1: "length (filteredAndSortedDeals Date_parse_sample ?s) = 26"
    by (simp add: sorted_numbered length_numberedDeals)
  have c2: "currentPage ?s = 1"
    by (simp add: initialState_def)
  have c3: "length (paginatedDeals Date_parse_sample ?s) = 25"
    by (simp add: page1_of_26 length_numberedDeals)
  have c4: "''26'' \<notin> set (map deal_id (paginatedDeals Date_parse_sample ?s))"
    unfolding page1_of_26 by (rule out26)
  have c5: "''26'' \<in> selectedDeals (handleSelectAll Date_parse_sample True ?s)"
    unfolding sel by (rule in26)
  have c6: "\<not> headerChecked Date_parse_sample (handleSelectAll Date_parse_sample True ?s)"
    unfolding headerChecked_def sel page crd by (simp add: length_numberedDeals)
  have c7: "onDeleteDeals_calls (handleBulkDelete (handleSelectAll Date_parse_sample True ?s)) =
     [set (map deal_id (numberedDeals 26))]"
    using ne by (simp add: handleBulkDelete_def sel calls)
  show ?thesis
    using c1 c2 c3 c4 c5 c6 c7 by (intro conjI)
qed

subsection \<open>Sorting by a date that is missing or no date\<close>

text \<open>
  C4. In a sort by a date field a missing date and a date that does not parse are both
  to be compared as the epoch origin, so that they sort as earliest. The comparator gives
  the missing date the time value 0, and the deal without a date comes before the deal of
  2024. A text that is no date gives an invalid \<open>Date\<close>, whose time value is \<open>NaN\<close>:
  the comparator returns 0 against the deal of 2024, and in the ascending order the deal
  stays behind it.
\<close>

theorem unparsable_date_not_epoch:
  "sortValue Date_parse_sample ''expected_closing_date'' (datedDeal ''c'' None) = DateKey (Some 0) \<and>
   sortValue Date_parse_sample ''expected_closing_date'' (datedDeal ''b'' (Some ''soon'')) =
     DateKey None \<and>
   compareDeals Date_parse_sample ''expected_closing_date'' Asc
     (datedDeal ''b'' (Some ''soon'')) (datedDeal ''a'' (Some ''2024-01-01'')) = 0 \<and>
   map deal_id (filteredAndSortedDeals Date_parse_sample
     (byClosingDate [datedDeal ''a'' (Some ''2024-01-01''), datedDeal ''c'' None])) = [''c'', ''a''] \<and>
   map deal_id (filteredAndSortedDeals Date_parse_sample
     (byClosingDate [datedDeal ''a'' (Some ''2024-01-01''), datedDeal ''b'' (Some ''soon'')])) =
     [''a'', ''b'']"
  by (simp add: filteredAndSorted_dated_pair compareDeals_def sortValue_dated
      Date_parse_sample_def val_gt_def)
    (simp add: datedDeal_def blankDeal_def)

text \<open>What holds of the defaults: a missing number is compared as 0 and a missing date
  as the time value 0.\<close>

lemma missing_value_defaults:
  "numericProp d sb = None \<Longrightarrow>
     sb \<in> set [''priority'', ''probability'', ''project_duration'',
               ''total_contract_value'', ''total_revenue''] \<Longrightarrow>
     sortValue dp sb d = NumKey 0"
  "dateProp d sb = None \<Longrightarrow>
     sb \<in> set [''expected_closing_date'', ''start_date'', ''end_date'',
               ''created_at'', ''modified_at'', ''proposal_due_date''] \<Longrightarrow>
     sortValue dp sb d = DateKey (Some 0)"
  by (auto simp: sortValue_def orZero_def)

subsection \<open>A rejected inline edit\<close>

text \<open>
  C7, as stated: the failure notice names the edited field. The notice for a rejected edit
  of the probability is the fixed toast, and neither its title nor its description
  contains the name of the field.
\<close>

theorem inline_edit_rejected_counterexample:
  "toasts (handleInlineEdit rejectingUpdate ''1'' ''probability'' (JNum 50)
      (initialState (numberedDeals 2) ''all'')) = [updateFailedToast] \<and>
   \<not> str_includes (title updateFailedToast) ''probability'' \<and>
   \<not> str_includes (description updateFailedToast) ''probability''"
  by (simp add: handleInlineEdit_def rejectingUpdate_def initialState_def updateFailedToast_def)

text \<open>
  C7, amended. When the update callback rejects a submitted cell edit, the handler has
  called it once, signals the one failure notice "Update failed" / "Failed to update deal
  field", the same for every field, and changes nothing else: the records and the rows of
  the page are those from before the edit. There is no retry and no optimistic
  application.
\<close>

theorem inline_edit_rejected:
  assumes "onUpdateDeal dealId field v = Rejected"
  shows "handleInlineEdit onUpdateDeal dealId field v st =
           st\<lparr>onUpdateDeal_calls := onUpdateDeal_calls st @ [(dealId, field, v)],
              toasts := toasts st @ [updateFailedToast]\<rparr> \<and>
         deals (handleInlineEdit onUpdateDeal dealId field v st) = deals st \<and>
         paginatedDeals dp (handleInlineEdit onUpdateDeal dealId field v st) =
           paginatedDeals dp st"
proof -
  have e: "handleInlineEdit onUpdateDeal dealId field v st =
           st\<lparr>onUpdateDeal_calls := onUpdateDeal_calls st @ [(dealId, field, v)],
              toasts := toasts st @ [updateFailedToast]\<rparr>"
    using assms by (simp add: handleInlineEdit_def Let_def)
  show ?thesis
    unfolding e by (simp add: paginatedDeals_logs)
qed

theorem inline_edit_rejected_witness:
  "rejectingUpdate ''1'' ''probability'' (JNum 50) = Rejected \<and>
   toasts (handleInlineEdit rejectingUpdate ''1'' ''probability'' (JNum 50)
      (initialState (numberedDeals 2) ''all'')) = [updateFailedToast] \<and>
   onUpdateDeal_calls (handleInlineEdit rejectingUpdate ''1'' ''probability'' (JNum 50)
      (initialState (numberedDeals 2) ''all'')) = [(''1'', ''probability'', JNum 50)] \<and>
   map probability (paginatedDeals Date_parse_sample
      (handleInlineEdit rejectingUpdate ''1'' ''probability'' (JNum 50)
        (initialState (numberedDeals 2) ''all''))) = [None, None]"
proof -
  let ?s = "initialState (numberedDeals 2) ''all''"
  let ?r = "handleInlineEdit rejectingUpdate ''1'' ''probability'' (JNum 50) ?s"
  have a: "rejectingUpdate ''1'' ''probability'' (JNum 50) = Rejected"
    by (simp add: rejectingUpdate_def)
  note t = inline_edit_rejected [of rejectingUpdate "''1''" "''probability''" "JNum 50" ?s
      Date_parse_sample, OF a]
  have e: "?r = ?s\<lparr>onUpdateDeal_calls := onUpdateDeal_calls ?s @ [(''1'', ''probability'', JNum 50)],
              toasts := toasts ?s @ [updateFailedToast]\<rparr>"
    using t by (rule conjunct1)
  have p: "paginatedDeals Date_parse_sample ?r = paginatedDeals Date_parse_sample ?s"
    by (rule t [THEN conjunct2, THEN conjunct2])
  have b: "toasts ?s = []" "onUpdateDeal_calls ?s = []"
    by (simp_all add: initialState_def)
  have c1: "toasts ?r = [updateFailedToast]"
    by (subst e) (simp add: b)
  have c2: "onUpdateDeal_calls ?r = [(''1'', ''probability'', JNum 50)]"
    by (subst e) (simp add: b)
  have "map probability (numberedDeals 2) = [None, None]"
    by (simp add: numberedDeals_def blankDeal_def upt_rec)
  then have c3: "map probability (paginatedDeals Date_parse_sample ?r) = [None, None]"
    by (simp add: p page_numbered_small)
  show ?thesis
    using a c1 c2 c3 by (intro conjI)
qed

subsection \<open>Loading the saved column widths\<close>

text \<open>
  C8, as stated: the saved widths are laid over the defaults field by field and saved
  entries of unknown fields are ignored. After loading a saved record with the two
  entries \<open>stage\<close> and \<open>notes\<close>, the column \<open>project_name\<close> has no width of its own and is
  drawn 120 wide, where the merge gives its default 200; and the entry of the unknown
  field \<open>notes\<close> is in the state, where the merge drops it.
\<close>

theorem load_saved_widths_counterexample:
  \<open>columnWidths (loadColumnWidths JSON_parse_sample (Some ''{"stage":300,"notes":90}'')
      (initialState [] ''all'')) ''project_name'' = None \<and>
   widthOf (columnWidths (loadColumnWidths JSON_parse_sample (Some ''{"stage":300,"notes":90}'')
      (initialState [] ''all''))) ''project_name'' = 120 \<and>
   mergeOverDefaults defaultColumnWidths [''stage'' \<mapsto> 300, ''notes'' \<mapsto> 90] ''project_name''
     = Some 200 \<and>
   columnWidths (loadColumnWidths JSON_parse_sample (Some ''{"stage":300,"notes":90}'')
      (initialState [] ''all'')) ''notes'' = Some 90 \<and>
   mergeOverDefaults defaultColumnWidths [''stage'' \<mapsto> 300, ''notes'' \<mapsto> 90] ''notes'' = None\<close>
  by (simp add: loadColumnWidths_def JSON_parse_sample_def widthOf_def mergeOverDefaults_def
      defaultColumnWidths_def)

text \<open>
  C8, amended. At startup a saved text that parses replaces the whole width record; a
  saved text that does not parse is discarded, so that the widths stay the defaults, the
  failure is logged on the console and no notice is shown to the user; with no saved text
  or an empty one the state is unchanged.
\<close>

theorem load_saved_widths:
  "(s \<noteq> [] \<and> JSON_parse s = Parsed p \<longrightarrow>
      loadColumnWidths JSON_parse (Some s) st = st\<lparr>columnWidths := p\<rparr>) \<and>
   (t \<noteq> [] \<and> JSON_parse t = SyntaxError \<longrightarrow>
      loadColumnWidths JSON_parse (Some t) st =
        st\<lparr>console_errors := console_errors st @ [''Failed to parse saved column widths:'']\<rparr> \<and>
      columnWidths (loadColumnWidths JSON_parse (Some t) (initialState ds a)) = defaultColumnWidths \<and>
      toasts (loadColumnWidths JSON_parse (Some t) st) = toasts st) \<and>
   loadColumnWidths JSON_parse None st = st \<and>
   loadColumnWidths JSON_parse (Some []) st = st"
  by (simp add: loadColumnWidths_def initialState_def)

theorem load_saved_widths_witness:
  \<open>''{"stage":300,"notes":90}'' \<noteq> [] \<and>
   JSON_parse_sample ''{"stage":300,"notes":90}'' = Parsed [''stage'' \<mapsto> 300, ''notes'' \<mapsto> 90] \<and>
   ''{"stage":'' \<noteq> [] \<and> JSON_parse_sample ''{"stage":'' = SyntaxError \<and>
   columnWidths (loadColumnWidths JSON_parse_sample (Some ''{"stage":300,"notes":90}'')
     (initialState [] ''all'')) = [''stage'' \<mapsto> 300, ''notes'' \<mapsto> 90] \<and>
   columnWidths (loadColumnWidths JSON_parse_sample (Some ''{"stage":'') (initialState [] ''all''))
     = defaultColumnWidths \<and>
   console_errors (loadColumnWidths JSON_parse_sample (Some ''{"stage":'') (initialState [] ''all''))
     = [''Failed to parse saved column widths:''] \<and>
   toasts (loadColumnWidths JSON_parse_sample (Some ''{"stage":'') (initialState [] ''all'')) = []\<close>
proof -
  have a: \<open>JSON_parse_sample ''{"stage":300,"notes":90}'' =
             Parsed [''stage'' \<mapsto> 300, ''notes'' \<mapsto> 90]\<close>
    by (simp add: JSON_parse_sample_def)
  have b: \<open>JSON_parse_sample ''{"stage":'' = SyntaxError\<close>
    by (simp add: JSON_parse_sample_def)
  have c: "console_errors (initialState [] ''all'') = []" "toasts (initialState [] ''all'') = []"
    "columnWidths (initialState [] ''all'') = defaultColumnWidths"
    by (simp_all add: initialState_def)
  show ?thesis
    using load_saved_widths [where s = \<open>''{"stage":300,"notes":90}''\<close>
        and JSON_parse = JSON_parse_sample and p = "[''stage'' \<mapsto> 300, ''notes'' \<mapsto> 90]"
        and t = \<open>''{"stage":''\<close> and st = "initialState [] ''all''" and ds = "[]"
        and a = "''all''"] a b
    by (simp add: c)
qed

end
